theory Spec2Isabelle
  imports Complex_Main
begin

text \<open>
  The repository is a script of three files. \<^verbatim>\<open>agent/prompt_templates.py\<close> holds the prompt template,
  \<^verbatim>\<open>agent/agent.py\<close> reads its configuration when it is imported and defines
  \<^verbatim>\<open>generate_tests_for_file\<close>, and \<^verbatim>\<open>examples/strings.py\<close> is a sample input. The function reads a
  source file, asks a hosted chat model for a pytest module, checks the answer with two
  string tests and writes it to \<^verbatim>\<open>out_dir/test_<module>.py\<close>.

  The embedding follows the code: Python strings are lists of code points, every exception
  is a value of \<open>py_error\<close> and a call returns \<open>py_error + 'a\<close>, and what the code does to
  the outside (the file system, the request to the model) is a change of an explicit
  \<open>world\<close>. The functions of the standard library that the code calls are written out after
  their CPython sources, for POSIX paths.
\<close>


section \<open>Python strings\<close>

text \<open>
  A Python \<^verbatim>\<open>str\<close> is a sequence of Unicode code points, so it is modelled as a list of
  natural numbers (not of bytes). \<open>lit\<close> turns an ASCII literal of the source into such a list.
\<close>

type_synonym pystr = "nat list"

definition lit :: "string \<Rightarrow> pystr" where
  "lit s = map of_char s"

text \<open>
  \<^verbatim>\<open>str.isspace\<close> for one code point: the white-space table of CPython
  (\<^verbatim>\<open>_PyUnicode_IsWhitespace\<close>), which \<^verbatim>\<open>str.strip()\<close> without argument uses.
\<close>

definition py_isspace :: "nat \<Rightarrow> bool" where
  "py_isspace c \<longleftrightarrow>
     (0x09 \<le> c \<and> c \<le> 0x0D) \<or> (0x1C \<le> c \<and> c \<le> 0x20) \<or> c = 0x85 \<or> c = 0xA0 \<or>
     c = 0x1680 \<or> (0x2000 \<le> c \<and> c \<le> 0x200A) \<or> c = 0x2028 \<or> c = 0x2029 \<or>
     c = 0x202F \<or> c = 0x205F \<or> c = 0x3000"

definition lstrip :: "pystr \<Rightarrow> pystr" where
  "lstrip s = dropWhile py_isspace s"

definition rstrip :: "pystr \<Rightarrow> pystr" where
  "rstrip s = rev (dropWhile py_isspace (rev s))"

text \<open>\<^verbatim>\<open>s.strip()\<close>\<close>

definition strip :: "pystr \<Rightarrow> pystr" where
  "strip s = rstrip (lstrip s)"

text \<open>\<^verbatim>\<open>s.startswith(p)\<close> and \<^verbatim>\<open>s.endswith(p)\<close>\<close>

definition startswith :: "pystr \<Rightarrow> pystr \<Rightarrow> bool" where
  "startswith s p \<longleftrightarrow> take (length p) s = p"

definition endswith :: "pystr \<Rightarrow> pystr \<Rightarrow> bool" where
  "endswith s p \<longleftrightarrow> startswith (rev s) (rev p)"

text \<open>\<^verbatim>\<open>sub in s\<close>: \<open>sub\<close> occurs in \<open>s\<close> as a contiguous substring.\<close>

fun py_in :: "pystr \<Rightarrow> pystr \<Rightarrow> bool" where
  "py_in sub [] = (sub = [])"
| "py_in sub (c # s) = (startswith (c # s) sub \<or> py_in sub s)"

text \<open>
  \<^verbatim>\<open>s.rfind(c)\<close> for a one-character \<open>c\<close>: the highest index of \<open>c\<close> in \<open>s\<close>, or \<open>-1\<close>.
\<close>

definition rfind :: "pystr \<Rightarrow> nat \<Rightarrow> int" where
  "rfind s c =
     (if c \<in> set s then int (length s) - 1 - int (length (takeWhile (\<lambda>x. x \<noteq> c) (rev s)))
      else - 1)"

text \<open>\<^verbatim>\<open>s.split(c)\<close> for a one-character separator \<open>c\<close>.\<close>

fun split_on :: "nat \<Rightarrow> pystr \<Rightarrow> pystr list" where
  "split_on c [] = [[]]"
| "split_on c (x # xs) =
     (if x = c then [] # split_on c xs
      else (case split_on c xs of [] \<Rightarrow> [[x]] | w # ws \<Rightarrow> (x # w) # ws))"

text \<open>\<^verbatim>\<open>s.join(xs)\<close>\<close>

fun str_join :: "pystr \<Rightarrow> pystr list \<Rightarrow> pystr" where
  "str_join s [] = []"
| "str_join s [x] = x"
| "str_join s (x # y # ys) = x @ s @ str_join s (y # ys)"


section \<open>The functions of \<^verbatim>\<open>os.path\<close> the agent calls (\<^verbatim>\<open>posixpath\<close>)\<close>

definition sep :: nat where
  "sep = 0x2F"

definition extsep :: nat where
  "extsep = 0x2E"

definition curdir :: pystr where
  "curdir = [extsep]"

definition pardir :: pystr where
  "pardir = [extsep, extsep]"

text \<open>\<^verbatim>\<open>os.path.join(a, b)\<close> with one further component.\<close>

definition path_join :: "pystr \<Rightarrow> pystr \<Rightarrow> pystr" where
  "path_join a b =
     (if startswith b [sep] then b
      else if a = [] \<or> endswith a [sep] then a @ b
      else a @ [sep] @ b)"

text \<open>
  One round of the loop of \<^verbatim>\<open>normpath\<close> over the components: empty and \<^verbatim>\<open>.\<close> components are
  skipped, \<^verbatim>\<open>..\<close> removes the component before it unless there is none to remove.
\<close>

definition normpath_step :: "nat \<Rightarrow> pystr list \<Rightarrow> pystr \<Rightarrow> pystr list" where
  "normpath_step initial_slashes new_comps c =
     (if c = [] \<or> c = curdir then new_comps
      else if c \<noteq> pardir \<or> (initial_slashes = 0 \<and> new_comps = []) \<or>
              (new_comps \<noteq> [] \<and> last new_comps = pardir)
           then new_comps @ [c]
      else if new_comps \<noteq> [] then butlast new_comps
      else new_comps)"

definition normpath :: "pystr \<Rightarrow> pystr" where
  "normpath path =
     (if path = [] then curdir
      else
        let initial_slashes =
              (if startswith path [sep]
               then (if startswith path [sep, sep] \<and> \<not> startswith path [sep, sep, sep]
                     then 2 else 1)
               else 0);
            comps = foldl (normpath_step initial_slashes) [] (split_on sep path);
            path' = replicate initial_slashes sep @ str_join [sep] comps
        in if path' = [] then curdir else path')"

text \<open>\<^verbatim>\<open>os.path.abspath(path)\<close>, with the working directory \<^verbatim>\<open>os.getcwd()\<close> made explicit.\<close>

definition abspath :: "pystr \<Rightarrow> pystr \<Rightarrow> pystr" where
  "abspath getcwd path =
     normpath (if startswith path [sep] then path else path_join getcwd path)"

text \<open>\<^verbatim>\<open>os.path.basename(p)\<close>: what follows the last slash.\<close>

definition basename :: "pystr \<Rightarrow> pystr" where
  "basename p = drop (nat (rfind p sep + 1)) p"

text \<open>
  \<^verbatim>\<open>os.path.splitext(p)\<close>: the extension starts at the last dot of the last component,
  unless only dots come before it in that component.
\<close>

definition splitext :: "pystr \<Rightarrow> pystr \<times> pystr" where
  "splitext p =
     (let sepIndex = rfind p sep;
          dotIndex = rfind p extsep
      in if dotIndex > sepIndex \<and>
            list_ex (\<lambda>c. c \<noteq> extsep)
              (take (nat (dotIndex - (sepIndex + 1))) (drop (nat (sepIndex + 1)) p))
         then (take (nat dotIndex) p, drop (nat dotIndex) p)
         else (p, []))"

text \<open>\<^verbatim>\<open>os.path.dirname(p)\<close>\<close>

definition dirname :: "pystr \<Rightarrow> pystr" where
  "dirname p =
     (let head = take (nat (rfind p sep + 1)) p
      in if head \<noteq> [] \<and> head \<noteq> replicate (length head) sep
         then rev (dropWhile (\<lambda>c. c = sep) (rev head))
         else head)"


section \<open>Exceptions\<close>

text \<open>
  Every exception the agent raises itself or lets through, as a value. \<open>TransportError\<close>
  stands for whatever the client library raises when the request fails (time-out,
  authentication, rate limit).
\<close>

datatype py_error =
    SyntaxError
  | ImportError
  | RuntimeError pystr
  | ValueError pystr
  | KeyError pystr
  | IndexError
  | FileNotFoundError
  | FileExistsError
  | IsADirectoryError
  | NotADirectoryError
  | UnicodeDecodeError
  | UnicodeEncodeError
  | TransportError


section \<open>The template module \<^verbatim>\<open>agent/prompt_templates.py\<close>\<close>

definition backslash :: char where
  "backslash = CHR 0x5C"

definition newline :: char where
  "newline = CHR 0x0A"

definition triple_quote :: string where
  "triple_quote = [CHR 0x22, CHR 0x22, CHR 0x22]"

text \<open>
  Lines 1 to 17 of the file, without the assignment and the opening quotes that start
  line 1.
\<close>

definition prompt_header_text :: string where
  \<open>prompt_header_text =
     ''        You are an automated test generator for Python functions. Generate a single pure Python file content that is a pytest test module.\<newline>'' @
     ''\<newline>'' @
     ''Requirements:\<newline>'' @
     ''- The file must start with exactly: import pytest\<newline>'' @
     ''- Use only valid python code (no surrounding markdown or explanation).\<newline>'' @
     ''- Create tests for the provided source. For each public function in the source produce:\<newline>'' @
     ''  - at least one 'success' test: def test_<func>_success(): ...\<newline>'' @
     ''  - at least one 'failure' test: def test_<func>_failure(): ...\<newline>'' @
     ''- Use clear, deterministic asserts (avoid random data).\<newline>'' @
     ''- When creating inputs, prefer small fixed examples and include edge-case for failure (e.g., invalid type, zero-division, ValueError).\<newline>'' @
     ''- Name the file content such that it can be written to test_<module>.py.\<newline>'' @
     ''- Keep tests self-contained: import the module under test using its module name (e.g., import examples.math_ops as mod).\<newline>'' @
     ''- Do not import or call any network resources.\<newline>'' @
     ''- Output ONLY the Python file content.\<newline>'' @
     ''\<newline>'' @
     ''Source file path: {src_path}\<newline>'' @
     ''Source code:\<newline>''\<close>

text \<open>
  The file as it is, 20 lines and 1048 bytes: the assignment with the opening quotes, the
  lines above, then line 18, \<^verbatim>\<open>"""\n{source}\n"""\<close>, line 19, three quotes, and an empty line 20.
  The backslashes of line 18 are two characters of the file, not escapes of this theory.
\<close>

definition prompt_templates_py :: string where
  \<open>prompt_templates_py =
     ''PROMPT_HEADER = """'' @ prompt_header_text @
     ''"""'' @ [backslash] @ ''n{source}'' @ [backslash] @ ''n"""\<newline>'' @
     ''"""\<newline>'' @
     ''\<newline>''\<close>

text \<open>
  How Python reads a module that consists of one assignment of a triple-quoted string
  literal to a name, \<^verbatim>\<open>NAME = """..."""\<close>, possibly followed by blank lines. The result is \<open>None\<close> for
  a text outside this fragment, \<open>Some (Inl SyntaxError)\<close> when the text cannot be compiled,
  and \<open>Some (Inr (name, value))\<close> when the module binds \<open>name\<close> to \<open>value\<close>.
\<close>

definition is_blank :: "char \<Rightarrow> bool" where
  "is_blank c \<longleftrightarrow> c = CHR '' '' \<or> c = CHR 0x09"

definition is_name_char :: "char \<Rightarrow> bool" where
  "is_name_char c \<longleftrightarrow>
     (let n = of_char c :: nat
      in (0x41 \<le> n \<and> n \<le> 0x5A) \<or> (0x61 \<le> n \<and> n \<le> 0x7A) \<or> (0x30 \<le> n \<and> n \<le> 0x39) \<or>
         n = 0x5F)"

definition is_digit :: "char \<Rightarrow> bool" where
  "is_digit c \<longleftrightarrow> (let n = of_char c :: nat in 0x30 \<le> n \<and> n \<le> 0x39)"

text \<open>
  The body of a triple-quoted literal, from after its opening quotes: it ends at the first
  three quotes that no backslash escapes. The result is the raw body and the text after the
  closing quotes, or \<open>None\<close> when the literal is not closed.
\<close>

fun scan_triple :: "string \<Rightarrow> (string \<times> string) option" where
  "scan_triple [] = None"
| "scan_triple (c # cs) =
     (if take 3 (c # cs) = triple_quote then Some ([], drop 3 (c # cs))
      else if c = backslash
      then (case cs of
              [] \<Rightarrow> None
            | d # ds \<Rightarrow> map_option (\<lambda>(body, rest). (c # d # body, rest)) (scan_triple ds))
      else map_option (\<lambda>(body, rest). (c # body, rest)) (scan_triple cs))"

text \<open>
  A character that is neither a quote nor a backslash; a text of such characters holds no
  closing quotes and no escape.
\<close>

definition plain :: "char \<Rightarrow> bool" where
  "plain c \<longleftrightarrow> c \<noteq> CHR 0x22 \<and> c \<noteq> backslash"

text \<open>
  The value of a literal's raw body: the one-character escapes; a backslash before a
  newline joins the lines. Other escapes and bytes outside ASCII are not in the fragment.
\<close>

definition simple_escape :: "char \<Rightarrow> nat option" where
  "simple_escape d =
     (if d = CHR ''n'' then Some 0x0A
      else if d = CHR ''t'' then Some 0x09
      else if d = CHR ''r'' then Some 0x0D
      else if d = backslash then Some 0x5C
      else if d = CHR 0x22 then Some 0x22
      else if d = CHR 0x27 then Some 0x27
      else None)"

fun unescape :: "string \<Rightarrow> pystr option" where
  "unescape [] = Some []"
| "unescape (c # cs) =
     (if c = backslash
      then (case cs of
              [] \<Rightarrow> None
            | d # ds \<Rightarrow>
                if d = newline then unescape ds
                else (case simple_escape d of
                        None \<Rightarrow> None
                      | Some v \<Rightarrow> map_option ((#) v) (unescape ds)))
      else if (of_char c :: nat) < 0x80 then map_option ((#) (of_char c)) (unescape cs)
      else None)"

text \<open>
  After the literal the logical line must end. A backslash there is a line continuation
  and must be followed by a newline; followed by anything else, the tokenizer raises
  \<^verbatim>\<open>SyntaxError: unexpected character after line continuation character\<close>. A logical line
  that goes on, after a continuation or otherwise, is outside the fragment.
\<close>

definition after_literal :: "string \<Rightarrow> (py_error + unit) option" where
  "after_literal s =
     (case dropWhile is_blank s of
        [] \<Rightarrow> Some (Inr ())
      | c # cs \<Rightarrow>
          if c = newline
          then (if list_all (\<lambda>x. is_blank x \<or> x = newline) cs then Some (Inr ()) else None)
          else if c = backslash
          then (case cs of
                  [] \<Rightarrow> Some (Inl SyntaxError)
                | d # ds \<Rightarrow>
                    if d = newline \<or> d = CHR 0x0D then None else Some (Inl SyntaxError))
          else None)"

definition import_module :: "string \<Rightarrow> (py_error + string \<times> pystr) option" where
  "import_module text =
     (let name = takeWhile is_name_char text;
          r1 = dropWhile is_blank (dropWhile is_name_char text)
      in case (name, r1) of
           (n # _, c # r2) \<Rightarrow>
             let r3 = dropWhile is_blank r2
             in if is_digit n then None
                else if c = CHR ''='' \<and> take 3 r3 = triple_quote
                then (case scan_triple (drop 3 r3) of
                        None \<Rightarrow> Some (Inl SyntaxError)
                      | Some (body, rest) \<Rightarrow>
                          (case after_literal rest of
                             None \<Rightarrow> None
                           | Some (Inl e) \<Rightarrow> Some (Inl e)
                           | Some (Inr _) \<Rightarrow>
                               (case unescape body of
                                  None \<Rightarrow> None
                                | Some v \<Rightarrow> Some (Inr (name, v)))))
                else None
         | _ \<Rightarrow> None)"

text \<open>
  \<^verbatim>\<open>str.format\<close> with keyword arguments only, for templates made of text, doubled braces and fields
  that are plain names. The second argument is the name of the field being read, if any.
  A field with a conversion, a format specification, an attribute or an index, and a
  numbered field, are outside the fragment (\<open>None\<close>). The value of a field is a string and
  is copied as it is: it is not read again for braces.
\<close>

definition lbrace :: nat where
  "lbrace = 0x7B"

definition rbrace :: nat where
  "rbrace = 0x7D"

definition field_char :: "nat \<Rightarrow> bool" where
  "field_char c \<longleftrightarrow> c \<notin> set (lit ''{}.[]!:'')"

definition is_decimal :: "pystr \<Rightarrow> bool" where
  "is_decimal f \<longleftrightarrow> list_all (\<lambda>c. 0x30 \<le> c \<and> c \<le> 0x39) f"

definition prepend :: "pystr \<Rightarrow> (py_error + pystr) option \<Rightarrow> (py_error + pystr) option" where
  "prepend v r = map_option (map_sum id ((@) v)) r"

fun py_format :: "(pystr \<rightharpoonup> pystr) \<Rightarrow> pystr option \<Rightarrow> pystr \<Rightarrow> (py_error + pystr) option" where
  "py_format kwargs None [] = Some (Inr [])"
| "py_format kwargs (Some f) [] =
     Some (Inl (ValueError (lit ''expected '}' before end of string'')))"
| "py_format kwargs None (c # cs) =
     (if c = lbrace
      then (case cs of
              [] \<Rightarrow> Some (Inl (ValueError (lit ''Single '{' encountered in format string'')))
            | d # ds \<Rightarrow>
                if d = lbrace
                then prepend [lbrace] (py_format kwargs None ds)
                else py_format kwargs (Some []) cs)
      else if c = rbrace
      then (case cs of
              [] \<Rightarrow> Some (Inl (ValueError (lit ''Single '}' encountered in format string'')))
            | d # ds \<Rightarrow>
                if d = rbrace
                then prepend [rbrace] (py_format kwargs None ds)
                else Some (Inl (ValueError (lit ''Single '}' encountered in format string''))))
      else prepend [c] (py_format kwargs None cs))"
| "py_format kwargs (Some f) (c # cs) =
     (if c = rbrace
      then (if f = [] then Some (Inl IndexError)
            else if is_decimal f then None
            else (case kwargs f of
                    None \<Rightarrow> Some (Inl (KeyError f))
                  | Some v \<Rightarrow> prepend v (py_format kwargs None cs)))
      else if field_char c then py_format kwargs (Some (f @ [c])) cs
      else None)"

definition no_brace :: "nat \<Rightarrow> bool" where
  "no_brace c \<longleftrightarrow> c \<noteq> lbrace \<and> c \<noteq> rbrace"

text \<open>
  The Prompt Builder from the text of the template module: the module is read, the name
  \<^verbatim>\<open>PROMPT_HEADER\<close> is imported from it, and
  \<^verbatim>\<open>PROMPT_HEADER.format(src_path=src_path, source=source)\<close> is evaluated.
\<close>

definition prompt_builder :: "string \<Rightarrow> pystr \<Rightarrow> pystr \<Rightarrow> (py_error + pystr) option" where
  "prompt_builder module_text src_path source =
     (case import_module module_text of
        None \<Rightarrow> None
      | Some (Inl e) \<Rightarrow> Some (Inl e)
      | Some (Inr (name, template)) \<Rightarrow>
          if name = ''PROMPT_HEADER''
          then py_format [lit ''src_path'' \<mapsto> src_path, lit ''source'' \<mapsto> source] None template
          else Some (Inl ImportError))"


section \<open>Module initialisation of \<^verbatim>\<open>agent/agent.py\<close> (lines 1 to 24)\<close>

type_synonym environ = "pystr \<rightharpoonup> pystr"

text \<open>
  \<^verbatim>\<open>load_dotenv()\<close>: the variables of the \<^verbatim>\<open>.env\<close> file (already parsed, \<open>dotenv\<close>) are added
  to the process environment; a variable that is already set keeps its value.
\<close>

definition load_dotenv :: "environ \<Rightarrow> environ \<Rightarrow> environ" where
  "load_dotenv dotenv environ = dotenv ++ environ"

text \<open>\<^verbatim>\<open>os.getenv(key)\<close>: \<open>None\<close> when the variable is not set.\<close>

definition getenv :: "environ \<Rightarrow> pystr \<Rightarrow> pystr option" where
  "getenv environ key = environ key"

text \<open>Truth value of an optional string: \<^verbatim>\<open>None\<close> and the empty string are false.\<close>

definition truthy :: "pystr option \<Rightarrow> bool" where
  "truthy v \<longleftrightarrow> (case v of None \<Rightarrow> False | Some s \<Rightarrow> s \<noteq> [])"

text \<open>The client object: the keyword arguments \<^verbatim>\<open>AzureChatOpenAI(...)\<close> is built with.\<close>

record AzureChatOpenAI =
  deployment_name :: pystr
  openai_api_base :: pystr
  openai_api_key :: pystr
  temperature :: real
  max_tokens :: int
  request_timeout :: int

text \<open>
  \<^verbatim>\<open>PROMPT_HEADER\<close> is used in one way only, \<^verbatim>\<open>PROMPT_HEADER.format(src_path=..., source=...)\<close>;
  the imported object is represented by that operation, which returns the prompt or raises.
\<close>

type_synonym template = "pystr \<Rightarrow> pystr \<Rightarrow> py_error + pystr"

text \<open>The module's globals that \<^verbatim>\<open>generate_tests_for_file\<close> reads.\<close>

record agent_module =
  PROMPT_HEADER :: template
  llm :: AzureChatOpenAI

text \<open>
  Running the module body. \<open>import_prompt_templates\<close> is the outcome of line 5,
  \<^verbatim>\<open>from .prompt_templates import PROMPT_HEADER\<close>; \<open>dotenv\<close> the content of the \<^verbatim>\<open>.env\<close> file;
  \<open>environ\<close> the process environment. The constructor of the client is taken to store
  its arguments.
\<close>

definition agent_module_init ::
    "py_error + template \<Rightarrow> environ \<Rightarrow> environ \<Rightarrow> py_error + agent_module" where
  "agent_module_init import_prompt_templates dotenv environ =
     (case import_prompt_templates of
        Inl e \<Rightarrow> Inl e
      | Inr header \<Rightarrow>
          let environ' = load_dotenv dotenv environ;
              AZ_ENDPOINT = getenv environ' (lit ''AZURE_OPENAI_ENDPOINT'');
              AZ_KEY = getenv environ' (lit ''AZURE_OPENAI_KEY'');
              AZ_DEPLOY = getenv environ' (lit ''AZURE_OPENAI_DEPLOYMENT'')
          in if \<not> (truthy AZ_ENDPOINT \<and> truthy AZ_KEY \<and> truthy AZ_DEPLOY)
             then Inl (RuntimeError (lit ''Configure AZURE_OPENAI_* env vars or .env file''))
             else (case (AZ_ENDPOINT, AZ_KEY, AZ_DEPLOY) of
                     (Some endpoint, Some key, Some deploy) \<Rightarrow>
                       Inr \<lparr>PROMPT_HEADER = header,
                            llm = \<lparr>deployment_name = deploy,
                                   openai_api_base = endpoint,
                                   openai_api_key = key,
                                   temperature = 0.0,
                                   max_tokens = 1000,
                                   request_timeout = 120\<rparr>\<rparr>
                   | _ \<Rightarrow> Inl (RuntimeError (lit ''Configure AZURE_OPENAI_* env vars or .env file''))))"


section \<open>The world outside: file system and model endpoint\<close>

text \<open>
  The file system maps the absolute, normalised path of a file or directory to what is
  there. Paths are resolved lexically, as \<^verbatim>\<open>os.path.abspath\<close> does (no symbolic links, no
  permissions); the root directory always exists. A \<open>BinaryFile\<close> holds bytes that are not
  valid UTF-8. \<open>requests\<close> is the log of the requests sent to the model endpoint, oldest
  first, each with the client that sent it.
\<close>

datatype node = Directory | TextFile pystr | BinaryFile

datatype message = SystemMessage pystr | HumanMessage pystr

record world =
  getcwd :: pystr
  nodes :: "pystr \<rightharpoonup> node"
  requests :: "(AzureChatOpenAI \<times> message list) list"

text \<open>What the endpoint answers to a request: the completion text, or an error.\<close>

type_synonym endpoint = "AzureChatOpenAI \<Rightarrow> message list \<Rightarrow> py_error + pystr"

text \<open>
  The key of a path in the file system: its absolute, normalised form, with the two
  leading slashes that \<^verbatim>\<open>normpath\<close> keeps reduced to one.
\<close>

definition resolve :: "world \<Rightarrow> pystr \<Rightarrow> pystr" where
  "resolve w p =
     (let a = abspath (getcwd w) p in if startswith a [sep, sep] then tl a else a)"

definition node_at :: "world \<Rightarrow> pystr \<Rightarrow> node option" where
  "node_at w k = (if k = [sep] then Some Directory else nodes w k)"

text \<open>
  Reading in text mode translates \<^verbatim>\<open>\r\n\<close> and \<^verbatim>\<open>\r\<close> to \<^verbatim>\<open>\n\<close> (universal newlines);
  the flag says that the character before was \<^verbatim>\<open>\r\<close>.
\<close>

fun universal_newlines :: "bool \<Rightarrow> pystr \<Rightarrow> pystr" where
  "universal_newlines after_cr [] = []"
| "universal_newlines after_cr (c # s) =
     (if c = 0x0D then 0x0A # universal_newlines True s
      else if c = 0x0A \<and> after_cr then universal_newlines False s
      else c # universal_newlines False s)"

text \<open>\<^verbatim>\<open>with open(p, "r", encoding="utf-8") as f: f.read()\<close>\<close>

definition read_text :: "world \<Rightarrow> pystr \<Rightarrow> py_error + pystr" where
  "read_text w p =
     (if p = [] then Inl FileNotFoundError
      else case node_at w (resolve w p) of
             None \<Rightarrow> Inl FileNotFoundError
           | Some Directory \<Rightarrow> Inl IsADirectoryError
           | Some BinaryFile \<Rightarrow> Inl UnicodeDecodeError
           | Some (TextFile s) \<Rightarrow> Inr (universal_newlines False s))"

text \<open>
  \<^verbatim>\<open>os.makedirs(name, exist_ok=True)\<close>: \<open>mkdir_p\<close> walks down from the directory \<open>d\<close> through
  the components of the resolved name and creates the directories that are missing; a
  component that exists and is not a directory is an error. The empty name is an error
  (\<^verbatim>\<open>mkdir("")\<close> fails with \<^verbatim>\<open>ENOENT\<close>).
\<close>

fun mkdir_p :: "(pystr \<rightharpoonup> node) \<Rightarrow> pystr \<Rightarrow> pystr list \<Rightarrow> py_error + (pystr \<rightharpoonup> node)" where
  "mkdir_p fs d [] = Inr fs"
| "mkdir_p fs d (c # cs) =
     (let k = d @ [sep] @ c
      in case fs k of
           None \<Rightarrow> mkdir_p (fs(k \<mapsto> Directory)) k cs
         | Some Directory \<Rightarrow> mkdir_p fs k cs
         | Some _ \<Rightarrow> Inl (if cs = [] then FileExistsError else NotADirectoryError))"

definition makedirs :: "world \<Rightarrow> pystr \<Rightarrow> py_error + world" where
  "makedirs w name =
     (if name = [] then Inl FileNotFoundError
      else case mkdir_p (nodes w) [] (filter (\<lambda>c. c \<noteq> []) (split_on sep (resolve w name))) of
             Inl e \<Rightarrow> Inl e
           | Inr fs \<Rightarrow> Inr (w\<lparr>nodes := fs\<rparr>))"

text \<open>
  The keys that \<open>mkdir_p\<close> visits: the directory of each component, outermost first.
\<close>

fun directory_chain :: "pystr \<Rightarrow> pystr list \<Rightarrow> pystr list" where
  "directory_chain d [] = []"
| "directory_chain d (c # cs) = (d @ [sep] @ c) # directory_chain (d @ [sep] @ c) cs"

text \<open>
  \<^verbatim>\<open>open(p, "w", encoding="utf-8")\<close>: the directory of the file must exist; the file is
  created, or emptied when it exists.
\<close>

definition open_w :: "world \<Rightarrow> pystr \<Rightarrow> py_error + world" where
  "open_w w p =
     (if p = [] then Inl FileNotFoundError
      else
        let k = resolve w p
        in case node_at w k of
             Some Directory \<Rightarrow> Inl IsADirectoryError
           | _ \<Rightarrow>
               (case node_at w (dirname k) of
                  None \<Rightarrow> Inl FileNotFoundError
                | Some Directory \<Rightarrow> Inr (w\<lparr>nodes := (nodes w)(k \<mapsto> TextFile [])\<rparr>)
                | Some _ \<Rightarrow> Inl NotADirectoryError))"

text \<open>A code point UTF-8 can encode: no surrogate, at most \<^verbatim>\<open>U+10FFFF\<close>.\<close>

definition utf8_encodable :: "nat \<Rightarrow> bool" where
  "utf8_encodable c \<longleftrightarrow> c < 0xD800 \<or> (0xDFFF < c \<and> c \<le> 0x10FFFF)"

text \<open>\<^verbatim>\<open>outf.write(s)\<close> on the file opened at \<open>p\<close>, and closing it.\<close>

definition write_text :: "world \<Rightarrow> pystr \<Rightarrow> pystr \<Rightarrow> py_error + world" where
  "write_text w p s =
     (if list_all utf8_encodable s
      then Inr (w\<lparr>nodes := (nodes w)(resolve w p \<mapsto> TextFile s)\<rparr>)
      else Inl UnicodeEncodeError)"


section \<open>\<^verbatim>\<open>generate_tests_for_file\<close> (\<^verbatim>\<open>agent/agent.py\<close>, lines 26 to 55)\<close>

text \<open>
  The literals of the function: the system message and the messages of the two
  \<^verbatim>\<open>ValueError\<close>s (the first holds an em dash, \<^verbatim>\<open>U+2014\<close>).
\<close>

definition system_prompt :: pystr where
  "system_prompt = lit ''You are an expert Python developer and pytest author.''"

definition no_import_pytest :: pystr where
  "no_import_pytest =
     lit ''LLM output did not start with 'import pytest' '' @ [0x2014] @ lit '' aborting''"

definition no_test_functions :: pystr where
  "no_test_functions = lit ''No test functions detected in LLM output''"

text \<open>
  The function takes the module's globals \<open>m\<close>, the endpoint as it answers during this
  call, and the world before the call; it returns what the call returns or raises, and
  the world after it. The source's \<open>src_path\<close> is rebound to its absolute form on line 30.
\<close>

definition generate_tests_for_file ::
    "agent_module \<Rightarrow> endpoint \<Rightarrow> world \<Rightarrow> pystr \<Rightarrow> pystr \<Rightarrow> (py_error + pystr) \<times> world" where
  "generate_tests_for_file m endpoint w src_path0 out_dir =
     (let src_path = abspath (getcwd w) src_path0;
          module_name = fst (splitext (basename src_path))
      in case read_text w src_path of
           Inl e \<Rightarrow> (Inl e, w)
         | Inr source \<Rightarrow>
             (case PROMPT_HEADER m src_path source of
                Inl e \<Rightarrow> (Inl e, w)
              | Inr prompt \<Rightarrow>
                  let sys_msg = SystemMessage system_prompt;
                      user_msg = HumanMessage prompt;
                      w1 = w\<lparr>requests := requests w @ [(llm m, [sys_msg, user_msg])]\<rparr>
                  in case endpoint (llm m) [sys_msg, user_msg] of
                       Inl e \<Rightarrow> (Inl e, w1)
                     | Inr resp \<Rightarrow>
                         let content = strip resp
                         in if \<not> startswith content (lit ''import pytest'')
                            then (Inl (ValueError no_import_pytest), w1)
                            else if \<not> py_in (lit ''def test_'') content
                            then (Inl (ValueError no_test_functions), w1)
                            else
                              let out_fname =
                                    path_join out_dir (lit ''test_'' @ module_name @ lit ''.py'')
                              in case makedirs w1 out_dir of
                                   Inl e \<Rightarrow> (Inl e, w1)
                                 | Inr w2 \<Rightarrow>
                                     (case open_w w2 out_fname of
                                        Inl e \<Rightarrow> (Inl e, w2)
                                      | Inr w3 \<Rightarrow>
                                          (case write_text w3 out_fname (content @ [0x0A]) of
                                             Inl e \<Rightarrow> (Inl e, w3)
                                           | Inr w4 \<Rightarrow> (Inr out_fname, w4)))))"


section \<open>A concrete world\<close>

text \<open>
  The repository's own sample: the working directory is the checkout, which holds
  \<^verbatim>\<open>examples/strings.py\<close>.
\<close>

definition strings_py :: pystr where
  \<open>strings_py =
     lit (''def reverse(s):\<newline>    return s[::-1]\<newline>\<newline>def capitalize_first(s):\<newline>'' @
          ''    if not isinstance(s, str):\<newline>        raise TypeError("expected str")\<newline>'' @
          ''    if not s:\<newline>        return s\<newline>    return s[0].upper() + s[1:]'')\<close>

definition example_world :: world where
  "example_world =
     \<lparr>getcwd = lit ''/repo'',
      nodes = [lit ''/repo'' \<mapsto> Directory,
               lit ''/repo/examples'' \<mapsto> Directory,
               lit ''/repo/examples/strings.py'' \<mapsto> TextFile strings_py],
      requests = []\<rparr>"

text \<open>
  A module as it is after a successful import: a template with the two fields, and the
  client built from an environment that sets the three variables.
\<close>

definition example_template :: template where
  "example_template src_path source =
     Inr (lit ''Source file path: '' @ src_path @ lit ''\<newline>Source code:\<newline>'' @ source)"

definition example_environ :: environ where
  "example_environ =
     [lit ''AZURE_OPENAI_ENDPOINT'' \<mapsto> lit ''https://example.invalid/'',
      lit ''AZURE_OPENAI_KEY'' \<mapsto> lit ''secret'',
      lit ''AZURE_OPENAI_DEPLOYMENT'' \<mapsto> lit ''gpt'']"

definition no_dotenv :: environ where
  "no_dotenv = Map.empty"

definition example_module :: agent_module where
  "example_module =
     \<lparr>PROMPT_HEADER = example_template,
      llm = \<lparr>deployment_name = lit ''gpt'',
             openai_api_base = lit ''https://example.invalid/'',
             openai_api_key = lit ''secret'',
             temperature = 0,
             max_tokens = 1000,
             request_timeout = 120\<rparr>\<rparr>"


text \<open>An endpoint that answers every request with the same text.\<close>

definition replying :: "pystr \<Rightarrow> endpoint" where
  "replying resp client messages = Inr resp"

text \<open>
  Answers of the model: one that passes both checks, one wrapped in a Markdown fence, one
  without a test function, one that passes the checks without being a test module, and
  the answer to a second call.
\<close>

definition compliant_response :: pystr where
  "compliant_response =
     lit ''import pytest\<newline>import examples.strings as mod\<newline>def test_reverse_success(): ...\<newline>''"

definition fenced_response :: pystr where
  "fenced_response = lit ''```python\<newline>import pytest\<newline>def test_reverse_success(): ...\<newline>```''"

definition no_tests_response :: pystr where
  "no_tests_response = lit ''import pytest\<newline>import examples.strings as mod\<newline>''"


definition second_response :: pystr where
  "second_response =
     lit ''import pytest\<newline>def test_capitalize_first_failure(): ...''"

text \<open>
  The prompt and the request of a call on \<^verbatim>\<open>examples/strings.py\<close> in this world.
\<close>

definition example_prompt_text :: pystr where
  "example_prompt_text =
     lit ''Source file path: '' @ lit ''/repo/examples/strings.py'' @
     lit ''\<newline>Source code:\<newline>'' @ universal_newlines False strings_py"

definition example_request :: "AzureChatOpenAI \<times> message list" where
  "example_request =
     (llm example_module, [SystemMessage system_prompt, HumanMessage example_prompt_text])"


section \<open>Facts about the string and path operations\<close>

lemmas path_defs = abspath_def normpath_def normpath_step_def startswith_def endswith_def
  path_join_def sep_def extsep_def curdir_def pardir_def basename_def splitext_def rfind_def
  dirname_def resolve_def node_at_def

lemmas str_defs = lit_def strip_def lstrip_def rstrip_def py_isspace_def





lemma rstrip_last: "rstrip s \<noteq> [] \<Longrightarrow> \<not> py_isspace (last (rstrip s))"
  unfolding rstrip_def
  by (metis hd_dropWhile last_rev rev_is_Nil_conv)

lemma strip_last: "strip s \<noteq> [] \<Longrightarrow> \<not> py_isspace (last (strip s))"
  unfolding strip_def by (rule rstrip_last)

lemma startswith_nonempty: "startswith s p \<Longrightarrow> p \<noteq> [] \<Longrightarrow> s \<noteq> []"
  by (auto simp: startswith_def)

lemma import_pytest_nonempty: "lit ''import pytest'' \<noteq> []"
  by (simp add: lit_def)









section \<open>Facts about the file system operations\<close>

lemma write_text_node:
  "write_text w p s = Inr w' \<Longrightarrow> nodes w' (resolve w' p) = Some (TextFile s)"
  by (auto simp: write_text_def resolve_def split: if_splits)

lemma makedirs_requests: "makedirs w name = Inr w' \<Longrightarrow> requests w' = requests w"
  by (auto simp: makedirs_def split: if_splits sum.splits)

lemma open_w_requests: "open_w w p = Inr w' \<Longrightarrow> requests w' = requests w"
  by (auto simp: open_w_def Let_def split: if_splits option.splits node.splits)

lemma write_text_requests: "write_text w p s = Inr w' \<Longrightarrow> requests w' = requests w"
  by (auto simp: write_text_def split: if_splits)





text \<open>
  \<open>mkdir_p\<close> makes every key of the chain a directory and changes nothing else; when they
  all are directories already, it changes nothing.
\<close>

lemma mkdir_p_result:
  "mkdir_p fs d cs = Inr fs' \<Longrightarrow>
   (\<forall>k \<in> set (directory_chain d cs). fs' k = Some Directory) \<and>
   (\<forall>k. k \<notin> set (directory_chain d cs) \<longrightarrow> fs' k = fs k)"
proof (induction cs arbitrary: fs d)
  case Nil
  then show ?case by simp
next
  case (Cons c cs)
  let ?k = "d @ [sep] @ c"
  show ?case
  proof (cases "fs ?k")
    case None
    with Cons.prems have "mkdir_p (fs(?k \<mapsto> Directory)) ?k cs = Inr fs'"
      by (simp add: Let_def)
    from Cons.IH [OF this] show ?thesis
      by (auto simp: fun_upd_def split: if_splits)
  next
    case (Some n)
    with Cons.prems have n: "n = Directory"
      by (cases n) (simp_all add: Let_def)
    with Some Cons.prems have "mkdir_p fs ?k cs = Inr fs'"
      by (simp add: Let_def)
    from Cons.IH [OF this] Some n show ?thesis
      by auto
  qed
qed

lemma mkdir_p_existing:
  "\<forall>k \<in> set (directory_chain d cs). fs k = Some Directory \<Longrightarrow> mkdir_p fs d cs = Inr fs"
  by (induction cs arbitrary: d) (auto simp: Let_def)

lemma makedirs_inv:
  "makedirs w name = Inr w' \<Longrightarrow>
   \<exists>fs. mkdir_p (nodes w) [] (filter (\<lambda>c. c \<noteq> []) (split_on sep (resolve w name))) = Inr fs \<and>
        w' = w\<lparr>nodes := fs\<rparr>"
  by (auto simp: makedirs_def split: if_splits sum.splits)

lemma open_w_inv:
  "open_w w p = Inr w' \<Longrightarrow>
   node_at w (resolve w p) \<noteq> Some Directory \<and>
   w' = w\<lparr>nodes := (nodes w)(resolve w p \<mapsto> TextFile [])\<rparr>"
  by (auto simp: open_w_def Let_def split: if_splits option.splits node.splits)

lemma write_text_inv:
  "write_text w p s = Inr w' \<Longrightarrow> w' = w\<lparr>nodes := (nodes w)(resolve w p \<mapsto> TextFile s)\<rparr>"
  by (auto simp: write_text_def split: if_splits)


section \<open>Facts about \<^verbatim>\<open>generate_tests_for_file\<close>\<close>

text \<open>
  Once the source is read, the prompt built and the answer received, the call is the two
  checks followed by the output.
\<close>

lemma generate_after_response:
  assumes "read_text w (abspath (getcwd w) src_path) = Inr source"
      and "PROMPT_HEADER m (abspath (getcwd w) src_path) source = Inr prompt"
      and "endpoint (llm m) [SystemMessage system_prompt, HumanMessage prompt] = Inr resp"
  shows "generate_tests_for_file m endpoint w src_path out_dir =
     (let w1 = w\<lparr>requests := requests w @
                  [(llm m, [SystemMessage system_prompt, HumanMessage prompt])]\<rparr>;
          content = strip resp
      in if \<not> startswith content (lit ''import pytest'')
         then (Inl (ValueError no_import_pytest), w1)
         else if \<not> py_in (lit ''def test_'') content
         then (Inl (ValueError no_test_functions), w1)
         else
           let out_fname =
                 path_join out_dir
                   (lit ''test_'' @ fst (splitext (basename (abspath (getcwd w) src_path))) @
                    lit ''.py'')
           in case makedirs w1 out_dir of
                Inl e \<Rightarrow> (Inl e, w1)
              | Inr w2 \<Rightarrow>
                  (case open_w w2 out_fname of
                     Inl e \<Rightarrow> (Inl e, w2)
                   | Inr w3 \<Rightarrow>
                       (case write_text w3 out_fname (content @ [0x0A]) of
                          Inl e \<Rightarrow> (Inl e, w3)
                        | Inr w4 \<Rightarrow> (Inr out_fname, w4))))"
  using assms by (simp add: generate_tests_for_file_def Let_def)

lemma generate_requests:
  "requests (snd (generate_tests_for_file m endpoint w src_path out_dir)) =
     (case read_text w (abspath (getcwd w) src_path) of
        Inl e \<Rightarrow> requests w
      | Inr source \<Rightarrow>
          (case PROMPT_HEADER m (abspath (getcwd w) src_path) source of
             Inl e \<Rightarrow> requests w
           | Inr prompt \<Rightarrow>
               requests w @ [(llm m, [SystemMessage system_prompt, HumanMessage prompt])]))"
  by (auto simp: generate_tests_for_file_def Let_def split: sum.splits
      dest!: makedirs_requests open_w_requests write_text_requests)


lemma generate_success_inv:
  assumes "generate_tests_for_file m endpoint w src_path out_dir = (Inr p, w')"
  obtains source prompt resp w2 w3 where
    "read_text w (abspath (getcwd w) src_path) = Inr source"
    "PROMPT_HEADER m (abspath (getcwd w) src_path) source = Inr prompt"
    "endpoint (llm m) [SystemMessage system_prompt, HumanMessage prompt] = Inr resp"
    "p = path_join out_dir
           (lit ''test_'' @ fst (splitext (basename (abspath (getcwd w) src_path))) @ lit ''.py'')"
    "makedirs
       (w\<lparr>requests := requests w @
            [(llm m, [SystemMessage system_prompt, HumanMessage prompt])]\<rparr>) out_dir = Inr w2"
    "open_w w2 p = Inr w3"
    "write_text w3 p (strip resp @ [0x0A]) = Inr w'"
  using assms
  by (auto simp: generate_tests_for_file_def Let_def split: sum.splits if_splits)

text \<open>What a successful call does to the file system, given the file system before it.\<close>

lemma generate_success_nodes:
  assumes "generate_tests_for_file m endpoint w src_path out_dir = (Inr p, w')"
  obtains prompt resp fs where
    "endpoint (llm m) [SystemMessage system_prompt, HumanMessage prompt] = Inr resp"
    "(\<exists>source. read_text w (abspath (getcwd w) src_path) = Inr source \<and>
        PROMPT_HEADER m (abspath (getcwd w) src_path) source = Inr prompt)"
    "p = path_join out_dir
           (lit ''test_'' @ fst (splitext (basename (abspath (getcwd w) src_path))) @ lit ''.py'')"
    "mkdir_p (nodes w) [] (filter (\<lambda>c. c \<noteq> []) (split_on sep (resolve w out_dir))) = Inr fs"
    "fs (resolve w p) \<noteq> Some Directory"
    "nodes w' = fs(resolve w p \<mapsto> TextFile (strip resp @ [0x0A]))"
    "getcwd w' = getcwd w"
proof -
  from assms obtain source prompt resp w2 w3 where
    r: "read_text w (abspath (getcwd w) src_path) = Inr source"
    and b: "PROMPT_HEADER m (abspath (getcwd w) src_path) source = Inr prompt"
    and e: "endpoint (llm m) [SystemMessage system_prompt, HumanMessage prompt] = Inr resp"
    and p: "p = path_join out_dir
           (lit ''test_'' @ fst (splitext (basename (abspath (getcwd w) src_path))) @ lit ''.py'')"
    and mk: "makedirs
       (w\<lparr>requests := requests w @
            [(llm m, [SystemMessage system_prompt, HumanMessage prompt])]\<rparr>) out_dir = Inr w2"
    and op: "open_w w2 p = Inr w3"
    and wr: "write_text w3 p (strip resp @ [0x0A]) = Inr w'"
    by (rule generate_success_inv)
  let ?w1 = "w\<lparr>requests := requests w @
            [(llm m, [SystemMessage system_prompt, HumanMessage prompt])]\<rparr>"
  from makedirs_inv [OF mk] obtain fs where
    fs: "mkdir_p (nodes w) [] (filter (\<lambda>c. c \<noteq> []) (split_on sep (resolve w out_dir))) = Inr fs"
    and w2: "w2 = ?w1\<lparr>nodes := fs\<rparr>"
    by (auto simp: resolve_def)
  have c2: "resolve w2 p = resolve w p"
    by (simp add: w2 resolve_def)
  from open_w_inv [OF op] have nd: "node_at w2 (resolve w p) \<noteq> Some Directory"
    and w3: "w3 = w2\<lparr>nodes := (nodes w2)(resolve w p \<mapsto> TextFile [])\<rparr>"
    by (simp_all add: c2)
  have c3: "resolve w3 p = resolve w p"
    by (simp add: w3 w2 resolve_def)
  from write_text_inv [OF wr] have w': "w' = w3\<lparr>nodes := (nodes w3)(resolve w p \<mapsto>
      TextFile (strip resp @ [0x0A]))\<rparr>"
    by (simp add: c3)
  from nd have "fs (resolve w p) \<noteq> Some Directory"
    by (auto simp: node_at_def w2 split: if_splits)
  moreover have "nodes w' = fs(resolve w p \<mapsto> TextFile (strip resp @ [0x0A]))"
    by (simp add: w' w3 w2)
  moreover have "getcwd w' = getcwd w"
    by (simp add: w' w3 w2)
  ultimately show thesis
    using that [of prompt resp fs] e r b p fs by blast
qed

lemma init_client:
  "agent_module_init import_prompt_templates dotenv environ = Inr m \<Longrightarrow>
   temperature (llm m) = 0 \<and> max_tokens (llm m) = 1000 \<and> request_timeout (llm m) = 120"
  by (auto simp: agent_module_init_def Let_def
      split: sum.splits if_splits option.splits prod.splits)


section \<open>The concrete world, evaluated\<close>

lemma example_abspath:
  "abspath (getcwd example_world) (lit ''examples/strings.py'') = lit ''/repo/examples/strings.py''"
  by (simp add: example_world_def path_defs lit_def)

lemma example_read:
  "read_text example_world (lit ''/repo/examples/strings.py'') =
     Inr (universal_newlines False strings_py)"
  by (simp add: read_text_def example_world_def path_defs lit_def)

lemma example_prompt:
  "PROMPT_HEADER example_module p s = example_template p s"
  by (simp add: example_module_def)

lemma example_run:
  "generate_tests_for_file example_module (replying resp) example_world
     (lit ''examples/strings.py'') out_dir =
     (let w1 = example_world\<lparr>requests := [example_request]\<rparr>;
          content = strip resp
      in if \<not> startswith content (lit ''import pytest'')
         then (Inl (ValueError no_import_pytest), w1)
         else if \<not> py_in (lit ''def test_'') content
         then (Inl (ValueError no_test_functions), w1)
         else
           let out_fname = path_join out_dir (lit ''test_strings.py'')
           in case makedirs w1 out_dir of
                Inl e \<Rightarrow> (Inl e, w1)
              | Inr w2 \<Rightarrow>
                  (case open_w w2 out_fname of
                     Inl e \<Rightarrow> (Inl e, w2)
                   | Inr w3 \<Rightarrow>
                       (case write_text w3 out_fname (content @ [0x0A]) of
                          Inl e \<Rightarrow> (Inl e, w3)
                        | Inr w4 \<Rightarrow> (Inr out_fname, w4))))"
proof -
  have h1: "read_text example_world (abspath (getcwd example_world) (lit ''examples/strings.py''))
              = Inr (universal_newlines False strings_py)"
    by (simp only: example_abspath example_read)
  have h2: "PROMPT_HEADER example_module
              (abspath (getcwd example_world) (lit ''examples/strings.py''))
              (universal_newlines False strings_py) = Inr example_prompt_text"
    by (simp only: example_abspath example_prompt example_template_def example_prompt_text_def)
  have h3: "replying resp (llm example_module)
              [SystemMessage system_prompt, HumanMessage example_prompt_text] = Inr resp"
    by (simp add: replying_def)
  have r: "requests example_world = []"
    by (simp add: example_world_def)
  have n: "lit ''test_'' @ fst (splitext (basename (lit ''/repo/examples/strings.py''))) @ lit ''.py''
           = lit ''test_strings.py''"
    by (simp add: path_defs lit_def)
  show ?thesis
    using h1 h2 h3
      generate_after_response [where endpoint = "replying resp" and m = example_module
        and w = example_world and resp = resp and src_path = "lit ''examples/strings.py''"
        and source = "universal_newlines False strings_py" and prompt = example_prompt_text
        and out_dir = out_dir]
    by (simp add: r n example_abspath example_request_def Let_def)
qed

lemma compliant_stripped:
  "strip compliant_response =
     lit ''import pytest\<newline>import examples.strings as mod\<newline>def test_reverse_success(): ...''"
  by (simp add: compliant_response_def str_defs)

lemma compliant_checks:
  "startswith (strip compliant_response) (lit ''import pytest'')"
  "py_in (lit ''def test_'') (strip compliant_response)"
  unfolding compliant_stripped by (simp_all add: lit_def startswith_def)

lemma compliant_encodable: "list_all utf8_encodable (strip compliant_response)"
  by (simp add: compliant_stripped lit_def utf8_encodable_def)

lemma example_makedirs_dot:
  "makedirs (example_world\<lparr>requests := rs\<rparr>) (lit ''.'') = Inr (example_world\<lparr>requests := rs\<rparr>)"
  by (simp add: makedirs_def example_world_def path_defs lit_def)

lemma example_makedirs_file:
  "makedirs (example_world\<lparr>requests := rs\<rparr>) (lit ''examples/strings.py'') = Inl FileExistsError"
  by (simp add: makedirs_def example_world_def path_defs lit_def)

lemma example_makedirs_empty:
  "makedirs (example_world\<lparr>requests := rs\<rparr>) [] = Inl FileNotFoundError"
  by (simp add: makedirs_def)

lemma example_open_w:
  "open_w (example_world\<lparr>requests := rs\<rparr>) (lit ''./test_strings.py'') =
     Inr (example_world\<lparr>requests := rs,
            nodes := (nodes example_world)(lit ''/repo/test_strings.py'' \<mapsto> TextFile [])\<rparr>)"
  by (simp add: open_w_def example_world_def path_defs lit_def)

lemma example_resolve_out:
  "getcwd w = lit ''/repo'' \<Longrightarrow> resolve w (lit ''./test_strings.py'') = lit ''/repo/test_strings.py''"
  by (simp add: path_defs lit_def)

lemma example_environ_lookup:
  "example_environ (lit ''AZURE_OPENAI_ENDPOINT'') = Some (lit ''https://example.invalid/'')"
  "example_environ (lit ''AZURE_OPENAI_KEY'') = Some (lit ''secret'')"
  "example_environ (lit ''AZURE_OPENAI_DEPLOYMENT'') = Some (lit ''gpt'')"
  by (simp_all add: example_environ_def lit_def)

lemma example_init:
  "agent_module_init (Inr example_template) no_dotenv example_environ = Inr example_module"
  by (simp add: agent_module_init_def load_dotenv_def getenv_def no_dotenv_def truthy_def
      example_environ_lookup example_module_def Let_def)
     (simp add: lit_def)


lemma second_stripped:
  "strip second_response = lit ''import pytest\<newline>def test_capitalize_first_failure(): ...''"
  by (simp add: second_response_def str_defs)

lemma second_checks:
  "startswith (strip second_response) (lit ''import pytest'')"
  "py_in (lit ''def test_'') (strip second_response)"
  "list_all utf8_encodable (strip second_response)"
  unfolding second_stripped by (simp_all add: lit_def startswith_def utf8_encodable_def)

text \<open>
  A call on \<^verbatim>\<open>examples/strings.py\<close> with \<^verbatim>\<open>out_dir = "."\<close>, in any world that has the checkout
  as working directory and no directory in the place of the output file.
\<close>

lemma repo_run:
  assumes cwd: "getcwd w = lit ''/repo''"
      and dir: "nodes w (lit ''/repo'') = Some Directory"
      and src: "nodes w (lit ''/repo/examples/strings.py'') = Some (TextFile strings_py)"
      and out: "nodes w (lit ''/repo/test_strings.py'') \<noteq> Some Directory"
      and checks: "startswith (strip resp) (lit ''import pytest'')"
                  "py_in (lit ''def test_'') (strip resp)"
      and enc: "list_all utf8_encodable (strip resp)"
  shows "generate_tests_for_file example_module (replying resp) w
           (lit ''examples/strings.py'') (lit ''.'') =
         (Inr (lit ''./test_strings.py''),
          w\<lparr>requests := requests w @ [example_request],
            nodes := (nodes w)(lit ''/repo/test_strings.py'' \<mapsto> TextFile (strip resp @ [0x0A]))\<rparr>)"
proof -
  let ?w1 = "w\<lparr>requests := requests w @ [example_request]\<rparr>"
  let ?w3 = "?w1\<lparr>nodes := (nodes w)(lit ''/repo/test_strings.py'' \<mapsto> TextFile [])\<rparr>"
  have a: "abspath (getcwd w) (lit ''examples/strings.py'') = lit ''/repo/examples/strings.py''"
    unfolding cwd by (simp add: path_defs lit_def)
  have h1: "read_text w (abspath (getcwd w) (lit ''examples/strings.py''))
              = Inr (universal_newlines False strings_py)"
    unfolding a using src
    by (simp add: read_text_def resolve_def node_at_def cwd) (simp add: path_defs lit_def)
  have h2: "PROMPT_HEADER example_module (abspath (getcwd w) (lit ''examples/strings.py''))
              (universal_newlines False strings_py) = Inr example_prompt_text"
    by (simp only: a example_prompt example_template_def example_prompt_text_def)
  have h3: "replying resp (llm example_module)
              [SystemMessage system_prompt, HumanMessage example_prompt_text] = Inr resp"
    by (simp add: replying_def)
  have n: "path_join (lit ''.'')
             (lit ''test_'' @ fst (splitext (basename (abspath (getcwd w)
                (lit ''examples/strings.py'')))) @ lit ''.py'') = lit ''./test_strings.py''"
    unfolding a by (simp add: path_defs lit_def)
  have ne: "lit ''/repo/test_strings.py'' \<noteq> [sep]" "lit ''/repo'' \<noteq> [sep]"
           "lit ''./test_strings.py'' \<noteq> []" "lit ''.'' \<noteq> []"
    by (simp_all add: sep_def lit_def)
  have r1: "resolve ?w1 (lit ''.'') = lit ''/repo''"
    by (simp add: resolve_def cwd) (simp add: path_defs lit_def)
  have c: "filter (\<lambda>c. c \<noteq> []) (split_on sep (lit ''/repo'')) = [lit ''repo'']"
    by (simp add: sep_def lit_def)
  have k: "sep # lit ''repo'' = lit ''/repo''"
    by (simp add: sep_def lit_def)
  have m: "makedirs ?w1 (lit ''.'') = Inr ?w1"
    using dir by (simp add: makedirs_def r1 c k ne Let_def)
  have r2: "\<And>v. getcwd v = lit ''/repo'' \<Longrightarrow>
              resolve v (lit ''./test_strings.py'') = lit ''/repo/test_strings.py''"
    by (simp add: resolve_def) (simp add: path_defs lit_def)
  have d: "dirname (lit ''/repo/test_strings.py'') = lit ''/repo''"
    by (simp add: dirname_def rfind_def sep_def lit_def)
  have o: "open_w ?w1 (lit ''./test_strings.py'') = Inr ?w3"
    using out dir
    by (simp add: open_w_def r2 cwd d ne node_at_def Let_def split: option.splits node.splits)
  have wr: "write_text ?w3 (lit ''./test_strings.py'') (strip resp @ [0x0A]) =
              Inr (w\<lparr>requests := requests w @ [example_request],
                    nodes := (nodes w)(lit ''/repo/test_strings.py'' \<mapsto>
                               TextFile (strip resp @ [0x0A]))\<rparr>)"
    using enc by (simp add: write_text_def r2 cwd utf8_encodable_def)
  show ?thesis
    using h1 h2 h3 checks
      generate_after_response [where endpoint = "replying resp" and m = example_module
        and w = w and resp = resp and src_path = "lit ''examples/strings.py''"
        and source = "universal_newlines False strings_py" and prompt = example_prompt_text
        and out_dir = "lit ''.''"]
    by (simp add: Let_def n example_request_def [symmetric] m o wr)
qed

lemma example_success:
  "generate_tests_for_file example_module (replying compliant_response) example_world
     (lit ''examples/strings.py'') (lit ''.'') =
   (Inr (lit ''./test_strings.py''),
    example_world\<lparr>requests := [example_request],
      nodes := (nodes example_world)(lit ''/repo/test_strings.py'' \<mapsto>
                 TextFile (strip compliant_response @ [0x0A]))\<rparr>)"
proof -
  have "generate_tests_for_file example_module (replying compliant_response) example_world
     (lit ''examples/strings.py'') (lit ''.'') =
   (Inr (lit ''./test_strings.py''),
    example_world\<lparr>requests := requests example_world @ [example_request],
      nodes := (nodes example_world)(lit ''/repo/test_strings.py'' \<mapsto>
                 TextFile (strip compliant_response @ [0x0A]))\<rparr>)"
    by (rule repo_run)
       (simp_all add: compliant_checks compliant_encodable, simp_all add: example_world_def lit_def)
  then show ?thesis
    by (simp add: example_world_def)
qed


section \<open>Facts about the template module\<close>

lemma file_size: "length prompt_templates_py = 1048"
  by (simp add: prompt_templates_py_def prompt_header_text_def)

lemma scan_triple_plain:
  "list_all plain body \<Longrightarrow>
   scan_triple (body @ CHR 0x22 # CHR 0x22 # CHR 0x22 # rest) = Some (body, rest)"
  by (induction body) (auto simp: triple_quote_def plain_def)

lemma import_module_stray_backslash:
  assumes "list_all plain body" and "d \<noteq> newline" and "d \<noteq> CHR 0x0D"
  shows "import_module
           (''PROMPT_HEADER = '' @ triple_quote @ body @ triple_quote @ backslash # d # rest) =
         Some (Inl SyntaxError)"
  using assms
  by (simp add: import_module_def Let_def is_name_char_def is_blank_def is_digit_def
      triple_quote_def scan_triple_plain after_literal_def backslash_def newline_def)

lemma prompt_header_text_plain: "list_all plain prompt_header_text"
  by (simp add: prompt_header_text_def plain_def backslash_def)

text \<open>
  A module of the fragment that is well formed is read, with the escape evaluated and the
  braces kept.
\<close>

lemma import_module_accepts:
  \<open>import_module (''X = """a{b}'' @ [backslash] @ ''n"""\<newline>'') = Some (Inr (''X'', lit ''a{b}\<newline>''))\<close>
  by (simp add: import_module_def Let_def is_name_char_def is_blank_def is_digit_def
      triple_quote_def after_literal_def backslash_def newline_def simple_escape_def lit_def)

lemma prepend_Nil: "prepend [] r = r"
proof (cases r)
  case None
  then show ?thesis by (simp add: prepend_def)
next
  case (Some x)
  then show ?thesis by (cases x) (simp_all add: prepend_def)
qed

lemma prepend_prepend: "prepend a (prepend b r) = prepend (a @ b) r"
proof (cases r)
  case None
  then show ?thesis by (simp add: prepend_def)
next
  case (Some x)
  then show ?thesis by (cases x) (simp_all add: prepend_def)
qed

lemma prepend_result: "prepend a (Some (Inr b)) = Some (Inr (a @ b))"
  by (simp add: prepend_def)

lemma py_format_text:
  "list_all no_brace a \<Longrightarrow> py_format kwargs None (a @ r) = prepend a (py_format kwargs None r)"
  by (induction a) (simp_all add: no_brace_def prepend_Nil prepend_prepend)

lemma py_format_name:
  "list_all field_char n \<Longrightarrow>
   py_format kwargs (Some f) (n @ t) = py_format kwargs (Some (f @ n)) t"
proof (induction n arbitrary: f)
  case Nil
  then show ?case by simp
next
  case (Cons c n)
  then have "c \<noteq> rbrace"
    by (auto simp: field_char_def rbrace_def lit_def)
  with Cons show ?case by simp
qed

lemma py_format_field:
  assumes "n \<noteq> []" "list_all field_char n" "\<not> is_decimal n" "kwargs n = Some v"
  shows "py_format kwargs None (lbrace # n @ rbrace # r) = prepend v (py_format kwargs None r)"
proof -
  from assms(1) obtain d ds where n: "n = d # ds" by (cases n) auto
  with assms(2) have "d \<noteq> lbrace"
    by (auto simp: field_char_def lbrace_def lit_def)
  then have "py_format kwargs None (lbrace # n @ rbrace # r) =
               py_format kwargs (Some []) (n @ rbrace # r)"
    by (simp add: n)
  also have "\<dots> = py_format kwargs (Some n) (rbrace # r)"
    using assms(2) by (simp add: py_format_name)
  also have "\<dots> = prepend v (py_format kwargs None r)"
    using assms by simp
  finally show ?thesis .
qed

text \<open>
  On a template with the two fields and no other brace, formatting cannot fail and puts
  the two values in as they are, whatever characters they hold. With a template module
  that is well formed, the Prompt Builder does what claim C2 says.
\<close>

lemma py_format_two_fields:
  assumes "list_all no_brace a" "list_all no_brace b" "list_all no_brace c"
  shows "py_format [lit ''src_path'' \<mapsto> src_path, lit ''source'' \<mapsto> source] None
           (a @ lit ''{src_path}'' @ b @ lit ''{source}'' @ c) =
         Some (Inr (a @ src_path @ b @ source @ c))"
proof -
  let ?kw = "[lit ''src_path'' \<mapsto> src_path, lit ''source'' \<mapsto> source]"
  have f1: "lit ''{src_path}'' @ r = lbrace # lit ''src_path'' @ rbrace # r" for r
    by (simp add: lit_def lbrace_def rbrace_def)
  have f2: "lit ''{source}'' @ r = lbrace # lit ''source'' @ rbrace # r" for r
    by (simp add: lit_def lbrace_def rbrace_def)
  have n1: "lit ''src_path'' \<noteq> []" "list_all field_char (lit ''src_path'')"
      "\<not> is_decimal (lit ''src_path'')" "?kw (lit ''src_path'') = Some src_path"
    by (simp_all add: lit_def field_char_def is_decimal_def)
  have n2: "lit ''source'' \<noteq> []" "list_all field_char (lit ''source'')"
      "\<not> is_decimal (lit ''source'')" "?kw (lit ''source'') = Some source"
    by (simp_all add: lit_def field_char_def is_decimal_def)
  have e: "py_format ?kw None c = Some (Inr c)"
    using py_format_text [OF assms(3), of ?kw "[]"] by (simp add: prepend_result)
  have "py_format ?kw None
          (a @ lbrace # lit ''src_path'' @ rbrace # b @ lbrace # lit ''source'' @ rbrace # c) =
        prepend a (prepend src_path (prepend b (prepend source (Some (Inr c)))))"
    by (simp only: py_format_text [OF assms(1)] py_format_text [OF assms(2)]
        py_format_field [where kwargs = ?kw, OF n1] py_format_field [where kwargs = ?kw, OF n2] e)
  then show ?thesis
    unfolding f1 f2 by (simp add: prepend_result)
qed

lemma prompt_builder_well_formed:
  \<open>prompt_builder
     (''PROMPT_HEADER = """Path: {src_path}'' @ [backslash] @ ''nCode:\<newline>{source}\<newline>"""\<newline>'')
     src_path source =
   Some (Inr (lit ''Path: '' @ src_path @ lit ''\<newline>Code:\<newline>'' @ source @ lit ''\<newline>''))\<close>
proof -
  have i: \<open>import_module
     (''PROMPT_HEADER = """Path: {src_path}'' @ [backslash] @ ''nCode:\<newline>{source}\<newline>"""\<newline>'') =
     Some (Inr (''PROMPT_HEADER'',
       lit ''Path: '' @ lit ''{src_path}'' @ lit ''\<newline>Code:\<newline>'' @ lit ''{source}'' @ lit ''\<newline>''))\<close>
    by (simp add: import_module_def Let_def is_name_char_def is_blank_def is_digit_def
      triple_quote_def after_literal_def backslash_def newline_def simple_escape_def lit_def)
  have b: "list_all no_brace (lit ''Path: '')" "list_all no_brace (lit ''\<newline>Code:\<newline>'')"
      "list_all no_brace (lit ''\<newline>'')"
    by (simp_all add: no_brace_def lbrace_def rbrace_def lit_def)
  show ?thesis
    unfolding prompt_builder_def i using py_format_two_fields [OF b, of src_path source]
    by simp
qed


section \<open>The claims\<close>

subsection \<open>The successful call (C1)\<close>

text \<open>
  Claim C1, as amended. When the source file is read, the model answers, the stripped
  answer starts with \<^verbatim>\<open>import pytest\<close> and contains \<^verbatim>\<open>def test_\<close>, and creating the output
  directory, opening the output file and writing it all succeed, then the call returns
  \<^verbatim>\<open>os.path.join(out_dir, "test_" + module_name + ".py")\<close>, the file at that path holds the
  stripped answer followed by one newline, and the stripped answer does not itself end in
  white space.
\<close>

theorem generate_tests_for_file_success:
  assumes "read_text w (abspath (getcwd w) src_path) = Inr source"
      and "PROMPT_HEADER m (abspath (getcwd w) src_path) source = Inr prompt"
      and "endpoint (llm m) [SystemMessage system_prompt, HumanMessage prompt] = Inr resp"
      and "startswith (strip resp) (lit ''import pytest'')"
      and "py_in (lit ''def test_'') (strip resp)"
      and "out_fname =
             path_join out_dir
               (lit ''test_'' @ fst (splitext (basename (abspath (getcwd w) src_path))) @
                lit ''.py'')"
      and "makedirs
             (w\<lparr>requests := requests w @
                  [(llm m, [SystemMessage system_prompt, HumanMessage prompt])]\<rparr>)
             out_dir = Inr w2"
      and "open_w w2 out_fname = Inr w3"
      and "write_text w3 out_fname (strip resp @ [0x0A]) = Inr w4"
  shows "generate_tests_for_file m endpoint w src_path out_dir = (Inr out_fname, w4) \<and>
         nodes w4 (resolve w4 out_fname) = Some (TextFile (strip resp @ [0x0A])) \<and>
         \<not> py_isspace (last (strip resp))"
proof -
  have run: "generate_tests_for_file m endpoint w src_path out_dir = (Inr out_fname, w4)"
    using assms
      generate_after_response [where endpoint = endpoint and m = m and w = w and resp = resp
        and src_path = src_path and source = source and prompt = prompt and out_dir = out_dir]
    by (simp add: Let_def)
  have written: "nodes w4 (resolve w4 out_fname) = Some (TextFile (strip resp @ [0x0A]))"
    using assms(9) by (rule write_text_node)
  have "strip resp \<noteq> []"
    using assms(4) import_pytest_nonempty by (rule startswith_nonempty)
  then have last: "\<not> py_isspace (last (strip resp))"
    by (rule strip_last)
  from run written last show ?thesis by simp
qed

theorem generate_tests_for_file_success_witness:
  "fst (generate_tests_for_file example_module (replying compliant_response) example_world
          (lit ''examples/strings.py'') (lit ''.'')) = Inr (lit ''./test_strings.py'') \<and>
   nodes (snd (generate_tests_for_file example_module (replying compliant_response) example_world
          (lit ''examples/strings.py'') (lit ''.''))) (lit ''/repo/test_strings.py'') =
     Some (TextFile (lit (''import pytest\<newline>import examples.strings as mod\<newline>'' @
                          ''def test_reverse_success(): ...\<newline>'')))"
proof -
  let ?w1 = "example_world\<lparr>requests := requests example_world @ [example_request]\<rparr>"
  let ?w3 = "example_world\<lparr>requests := requests example_world @ [example_request],
               nodes := (nodes example_world)(lit ''/repo/test_strings.py'' \<mapsto> TextFile [])\<rparr>"
  let ?content = "strip compliant_response @ [0x0A]"
  let ?w4 = "?w3\<lparr>nodes := (nodes ?w3)(resolve ?w3 (lit ''./test_strings.py'') \<mapsto>
               TextFile ?content)\<rparr>"
  have h1: "read_text example_world (abspath (getcwd example_world) (lit ''examples/strings.py''))
              = Inr (universal_newlines False strings_py)"
    by (simp only: example_abspath example_read)
  have h2: "PROMPT_HEADER example_module
              (abspath (getcwd example_world) (lit ''examples/strings.py''))
              (universal_newlines False strings_py) = Inr example_prompt_text"
    by (simp only: example_abspath example_prompt example_template_def example_prompt_text_def)
  have h3: "replying compliant_response (llm example_module)
              [SystemMessage system_prompt, HumanMessage example_prompt_text]
              = Inr compliant_response"
    by (simp add: replying_def)
  have h6: "lit ''./test_strings.py'' =
              path_join (lit ''.'')
                (lit ''test_'' @
                 fst (splitext (basename (abspath (getcwd example_world)
                   (lit ''examples/strings.py'')))) @ lit ''.py'')"
    by (simp add: example_abspath) (simp add: path_defs lit_def)
  have h7: "makedirs
              (example_world\<lparr>requests := requests example_world @
                 [(llm example_module,
                   [SystemMessage system_prompt, HumanMessage example_prompt_text])]\<rparr>)
              (lit ''.'') = Inr ?w1"
    by (simp only: example_makedirs_dot example_request_def)
  have h8: "open_w ?w1 (lit ''./test_strings.py'') = Inr ?w3"
    by (simp only: example_open_w)
  have enc: "list_all utf8_encodable ?content"
    by (simp add: compliant_stripped lit_def utf8_encodable_def)
  have h9: "write_text ?w3 (lit ''./test_strings.py'') ?content = Inr ?w4"
    using enc by (simp add: write_text_def)
  have k: "resolve ?w3 (lit ''./test_strings.py'') = lit ''/repo/test_strings.py''"
    by (rule example_resolve_out) (simp add: example_world_def)
  have c: "?content = lit (''import pytest\<newline>import examples.strings as mod\<newline>'' @
                          ''def test_reverse_success(): ...\<newline>'')"
    by (simp add: compliant_stripped lit_def)
  have "generate_tests_for_file example_module (replying compliant_response) example_world
          (lit ''examples/strings.py'') (lit ''.'') = (Inr (lit ''./test_strings.py''), ?w4) \<and>
        nodes ?w4 (resolve ?w4 (lit ''./test_strings.py'')) = Some (TextFile ?content) \<and>
        \<not> py_isspace (last (strip compliant_response))"
    using h1 h2 h3 compliant_checks h6 h7 h8 h9
    by (rule generate_tests_for_file_success)
  then show ?thesis
    by (simp add: k c)
qed

text \<open>
  Claim C1 as stated does not hold: the source file is read and the answer passes both
  checks, yet the call raises when \<^verbatim>\<open>out_dir\<close> names an existing regular file
  (\<^verbatim>\<open>FileExistsError\<close> from \<^verbatim>\<open>os.makedirs\<close>) or is the empty string (\<^verbatim>\<open>FileNotFoundError\<close>).
\<close>

theorem generate_tests_for_file_success_counterexample:
  "read_text example_world (abspath (getcwd example_world) (lit ''examples/strings.py'')) =
     Inr (universal_newlines False strings_py) \<and>
   startswith (strip compliant_response) (lit ''import pytest'') \<and>
   py_in (lit ''def test_'') (strip compliant_response) \<and>
   fst (generate_tests_for_file example_module (replying compliant_response) example_world
          (lit ''examples/strings.py'') (lit ''examples/strings.py'')) = Inl FileExistsError \<and>
   fst (generate_tests_for_file example_module (replying compliant_response) example_world
          (lit ''examples/strings.py'') []) = Inl FileNotFoundError"
proof -
  have h1: "read_text example_world (abspath (getcwd example_world) (lit ''examples/strings.py''))
              = Inr (universal_newlines False strings_py)"
    by (simp only: example_abspath example_read)
  show ?thesis
    using h1 compliant_checks
    by (simp add: example_run Let_def example_makedirs_file example_makedirs_empty)
qed

subsection \<open>The prompt template (C2)\<close>

text \<open>
  Claim C2 fails on the code. \<^verbatim>\<open>prompt_templates.py\<close> is not a Python module: the string
  literal opened on line 1 ends at the first three quotes of line 18, and what follows them
  is a backslash that no newline follows, which is a \<^verbatim>\<open>SyntaxError\<close>. So for every path and
  every source text the Prompt Builder raises instead of returning a prompt, and the
  import on line 5 of \<^verbatim>\<open>agent.py\<close> fails with it.
\<close>

theorem prompt_builder_raises:
  "prompt_builder prompt_templates_py src_path source = Some (Inl SyntaxError) \<and>
   agent_module_init (Inl SyntaxError) dotenv environ = Inl SyntaxError"
proof -
  have e: "prompt_templates_py =
          ''PROMPT_HEADER = '' @ triple_quote @ prompt_header_text @ triple_quote @
          backslash # CHR ''n'' # (''{source}'' @ [backslash] @ ''n'' @ triple_quote @ [newline] @
            triple_quote @ [newline, newline])"
    by (simp add: prompt_templates_py_def triple_quote_def newline_def)
  have n: "CHR ''n'' \<noteq> newline" "CHR ''n'' \<noteq> CHR 0x0D"
    by (simp_all add: newline_def)
  have "import_module prompt_templates_py = Some (Inl SyntaxError)"
    unfolding e using prompt_header_text_plain n by (rule import_module_stray_backslash)
  then show ?thesis
    by (simp add: prompt_builder_def agent_module_init_def)
qed

subsection \<open>Configuration (C3)\<close>




subsection \<open>Failed checks write nothing (C4, C5)\<close>

text \<open>
  Claim C4. When the model has answered and the stripped answer does not start with
  \<^verbatim>\<open>import pytest\<close>, the call raises the first \<^verbatim>\<open>ValueError\<close>, and the file system is as
  before the call: no directory was created and no file written.
\<close>

theorem prefix_check_failure_writes_nothing:
  assumes "read_text w (abspath (getcwd w) src_path) = Inr source"
      and "PROMPT_HEADER m (abspath (getcwd w) src_path) source = Inr prompt"
      and "endpoint (llm m) [SystemMessage system_prompt, HumanMessage prompt] = Inr resp"
      and "\<not> startswith (strip resp) (lit ''import pytest'')"
  shows "fst (generate_tests_for_file m endpoint w src_path out_dir) =
           Inl (ValueError no_import_pytest) \<and>
         nodes (snd (generate_tests_for_file m endpoint w src_path out_dir)) = nodes w"
  using assms
    generate_after_response [where endpoint = endpoint and m = m and w = w and resp = resp
      and src_path = src_path and source = source and prompt = prompt and out_dir = out_dir]
  by (simp add: Let_def)

theorem prefix_check_failure_writes_nothing_witness:
  "\<not> startswith (strip fenced_response) (lit ''import pytest'') \<and>
   fst (generate_tests_for_file example_module (replying fenced_response) example_world
          (lit ''examples/strings.py'') (lit ''.'')) = Inl (ValueError no_import_pytest) \<and>
   nodes (snd (generate_tests_for_file example_module (replying fenced_response) example_world
          (lit ''examples/strings.py'') (lit ''.''))) = nodes example_world"
proof -
  let ?src = "lit ''/repo/examples/strings.py''"
  let ?source = "universal_newlines False strings_py"
  let ?prompt = "lit ''Source file path: '' @ ?src @ lit ''\<newline>Source code:\<newline>'' @ ?source"
  have h1: "read_text example_world (abspath (getcwd example_world) (lit ''examples/strings.py''))
              = Inr ?source"
    by (simp only: example_abspath example_read)
  have h2: "PROMPT_HEADER example_module
              (abspath (getcwd example_world) (lit ''examples/strings.py'')) ?source = Inr ?prompt"
    by (simp only: example_abspath example_prompt example_template_def)
  have h3: "replying fenced_response (llm example_module)
              [SystemMessage system_prompt, HumanMessage ?prompt] = Inr fenced_response"
    by (simp add: replying_def)
  have h4: "\<not> startswith (strip fenced_response) (lit ''import pytest'')"
    by (simp add: fenced_response_def str_defs startswith_def)
  show ?thesis
    using h1 h2 h3 h4 prefix_check_failure_writes_nothing
      [where endpoint = "replying fenced_response" and m = example_module and w = example_world
        and resp = fenced_response and src_path = "lit ''examples/strings.py''"
        and source = ?source and prompt = ?prompt and out_dir = "lit ''.''"]
    by simp
qed

text \<open>
  Claim C5. When the stripped answer does not contain \<^verbatim>\<open>def test_\<close>, the call raises a
  \<^verbatim>\<open>ValueError\<close> (the second one when the answer does start with \<^verbatim>\<open>import pytest\<close>), and
  the file system is as before the call.
\<close>

theorem missing_test_function_fails:
  assumes "read_text w (abspath (getcwd w) src_path) = Inr source"
      and "PROMPT_HEADER m (abspath (getcwd w) src_path) source = Inr prompt"
      and "endpoint (llm m) [SystemMessage system_prompt, HumanMessage prompt] = Inr resp"
      and "\<not> py_in (lit ''def test_'') (strip resp)"
  shows "fst (generate_tests_for_file m endpoint w src_path out_dir) =
           Inl (ValueError (if startswith (strip resp) (lit ''import pytest'')
                            then no_test_functions else no_import_pytest)) \<and>
         nodes (snd (generate_tests_for_file m endpoint w src_path out_dir)) = nodes w"
  using assms
    generate_after_response [where endpoint = endpoint and m = m and w = w and resp = resp
      and src_path = src_path and source = source and prompt = prompt and out_dir = out_dir]
  by (simp add: Let_def)

theorem missing_test_function_fails_witness:
  "startswith (strip no_tests_response) (lit ''import pytest'') \<and>
   \<not> py_in (lit ''def test_'') (strip no_tests_response) \<and>
   fst (generate_tests_for_file example_module (replying no_tests_response) example_world
          (lit ''examples/strings.py'') (lit ''.'')) = Inl (ValueError no_test_functions) \<and>
   nodes (snd (generate_tests_for_file example_module (replying no_tests_response) example_world
          (lit ''examples/strings.py'') (lit ''.''))) = nodes example_world"
proof -
  let ?src = "lit ''/repo/examples/strings.py''"
  let ?source = "universal_newlines False strings_py"
  let ?prompt = "lit ''Source file path: '' @ ?src @ lit ''\<newline>Source code:\<newline>'' @ ?source"
  have h1: "read_text example_world (abspath (getcwd example_world) (lit ''examples/strings.py''))
              = Inr ?source"
    by (simp only: example_abspath example_read)
  have h2: "PROMPT_HEADER example_module
              (abspath (getcwd example_world) (lit ''examples/strings.py'')) ?source = Inr ?prompt"
    by (simp only: example_abspath example_prompt example_template_def)
  have h3: "replying no_tests_response (llm example_module)
              [SystemMessage system_prompt, HumanMessage ?prompt] = Inr no_tests_response"
    by (simp add: replying_def)
  have s: "strip no_tests_response = lit ''import pytest\<newline>import examples.strings as mod''"
    by (simp add: no_tests_response_def str_defs)
  have h5: "startswith (strip no_tests_response) (lit ''import pytest'')"
    unfolding s by (simp add: lit_def startswith_def)
  have h4: "\<not> py_in (lit ''def test_'') (strip no_tests_response)"
    unfolding s by (simp add: lit_def startswith_def)
  show ?thesis
    using h1 h2 h3 h4 h5 missing_test_function_fails
      [where endpoint = "replying no_tests_response" and m = example_module and w = example_world
        and resp = no_tests_response and src_path = "lit ''examples/strings.py''"
        and source = ?source and prompt = ?prompt and out_dir = "lit ''.''"]
    by simp
qed

subsection \<open>The order of effects (C6, C7)\<close>



text \<open>
  Claim C7. The client the module builds has temperature 0.0, at most 1000 output tokens and
  a request time-out of 120 seconds. An invocation sends at most one request, exactly when
  the source was read and the prompt built, and that request is the system message with the
  fixed text followed by the user message holding the prompt.
\<close>

theorem request_is_system_then_user_message:
  assumes "agent_module_init import_prompt_templates dotenv environ = Inr m"
  shows "temperature (llm m) = 0 \<and> max_tokens (llm m) = 1000 \<and> request_timeout (llm m) = 120 \<and>
         requests (snd (generate_tests_for_file m endpoint w src_path out_dir)) =
           (case read_text w (abspath (getcwd w) src_path) of
              Inl e \<Rightarrow> requests w
            | Inr source \<Rightarrow>
                (case PROMPT_HEADER m (abspath (getcwd w) src_path) source of
                   Inl e \<Rightarrow> requests w
                 | Inr prompt \<Rightarrow>
                     requests w @
                     [(llm m,
                       [SystemMessage
                          (lit ''You are an expert Python developer and pytest author.''),
                        HumanMessage prompt])]))"
  using init_client [OF assms] generate_requests [of m endpoint w src_path out_dir]
  unfolding system_prompt_def by simp

theorem request_is_system_then_user_message_witness:
  "agent_module_init (Inr example_template) no_dotenv example_environ = Inr example_module \<and>
   temperature (llm example_module) = 0 \<and> max_tokens (llm example_module) = 1000 \<and>
   request_timeout (llm example_module) = 120 \<and>
   requests (snd (generate_tests_for_file example_module (replying compliant_response)
       example_world (lit ''examples/strings.py'') (lit ''.''))) =
     [(llm example_module,
       [SystemMessage (lit ''You are an expert Python developer and pytest author.''),
        HumanMessage example_prompt_text])]"
proof -
  have h1: "read_text example_world (abspath (getcwd example_world) (lit ''examples/strings.py''))
              = Inr (universal_newlines False strings_py)"
    by (simp only: example_abspath example_read)
  have h2: "PROMPT_HEADER example_module
              (abspath (getcwd example_world) (lit ''examples/strings.py''))
              (universal_newlines False strings_py) = Inr example_prompt_text"
    by (simp only: example_abspath example_prompt example_template_def example_prompt_text_def)
  have r: "requests example_world = []"
    by (simp add: example_world_def)
  show ?thesis
    using request_is_system_then_user_message
      [OF example_init, of "replying compliant_response" example_world
        "lit ''examples/strings.py''" "lit ''.''"]
    by (simp add: h1 h2 r example_init)
qed

subsection \<open>Calling again (C8)\<close>

text \<open>
  Claim C8. When a call has returned and a second call with the same \<^verbatim>\<open>src_path\<close> and
  \<^verbatim>\<open>out_dir\<close> returns too, the second returns the same path, and the file system after it is
  the file system after the first call with the file at that path replaced by the second
  answer, stripped, plus a newline: nothing of the first content is kept and no other
  file or directory is added.
\<close>

theorem reinvocation_overwrites:
  assumes "generate_tests_for_file m endpoint1 w0 src_path out_dir = (Inr p1, w1)"
      and "generate_tests_for_file m endpoint2 w1 src_path out_dir = (Inr p2, w2)"
  shows "p2 = p1 \<and>
         (\<exists>source prompt resp2.
            read_text w1 (abspath (getcwd w1) src_path) = Inr source \<and>
            PROMPT_HEADER m (abspath (getcwd w1) src_path) source = Inr prompt \<and>
            endpoint2 (llm m) [SystemMessage system_prompt, HumanMessage prompt] = Inr resp2 \<and>
            nodes w2 = (nodes w1)(resolve w1 p1 \<mapsto> TextFile (strip resp2 @ [0x0A])))"
proof -
  let ?cs = "filter (\<lambda>c. c \<noteq> []) (split_on sep (resolve w0 out_dir))"
  from assms(1) obtain prompt1 resp1 fs1 where
    p1: "p1 = path_join out_dir
           (lit ''test_'' @ fst (splitext (basename (abspath (getcwd w0) src_path))) @ lit ''.py'')"
    and fs1: "mkdir_p (nodes w0) [] ?cs = Inr fs1"
    and nd1: "fs1 (resolve w0 p1) \<noteq> Some Directory"
    and n1: "nodes w1 = fs1(resolve w0 p1 \<mapsto> TextFile (strip resp1 @ [0x0A]))"
    and cwd: "getcwd w1 = getcwd w0"
    by (rule generate_success_nodes)
  from assms(2) obtain prompt2 resp2 fs2 where
    e2: "endpoint2 (llm m) [SystemMessage system_prompt, HumanMessage prompt2] = Inr resp2"
    and s2: "\<exists>source. read_text w1 (abspath (getcwd w1) src_path) = Inr source \<and>
        PROMPT_HEADER m (abspath (getcwd w1) src_path) source = Inr prompt2"
    and p2: "p2 = path_join out_dir
           (lit ''test_'' @ fst (splitext (basename (abspath (getcwd w1) src_path))) @ lit ''.py'')"
    and fs2: "mkdir_p (nodes w1) []
                (filter (\<lambda>c. c \<noteq> []) (split_on sep (resolve w1 out_dir))) = Inr fs2"
    and n2: "nodes w2 = fs2(resolve w1 p2 \<mapsto> TextFile (strip resp2 @ [0x0A]))"
    by (rule generate_success_nodes)
  have same: "p2 = p1"
    by (simp add: p1 p2 cwd)
  have r: "resolve w1 q = resolve w0 q" for q
    by (simp add: resolve_def cwd)
  from mkdir_p_result [OF fs1] have dirs: "\<forall>k \<in> set (directory_chain [] ?cs). fs1 k = Some Directory"
    by blast
  with nd1 have "resolve w0 p1 \<notin> set (directory_chain [] ?cs)"
    by blast
  with dirs n1 have "\<forall>k \<in> set (directory_chain [] ?cs). nodes w1 k = Some Directory"
    by auto
  then have "mkdir_p (nodes w1) [] ?cs = Inr (nodes w1)"
    by (rule mkdir_p_existing)
  with fs2 have "fs2 = nodes w1"
    by (simp add: r)
  with n2 have "nodes w2 = (nodes w1)(resolve w1 p1 \<mapsto> TextFile (strip resp2 @ [0x0A]))"
    by (simp add: same)
  with same e2 s2 show ?thesis
    by blast
qed

theorem reinvocation_overwrites_witness:
  "fst (generate_tests_for_file example_module (replying compliant_response) example_world
          (lit ''examples/strings.py'') (lit ''.'')) = Inr (lit ''./test_strings.py'') \<and>
   fst (generate_tests_for_file example_module (replying second_response)
          (snd (generate_tests_for_file example_module (replying compliant_response)
                  example_world (lit ''examples/strings.py'') (lit ''.'')))
          (lit ''examples/strings.py'') (lit ''.'')) = Inr (lit ''./test_strings.py'') \<and>
   nodes (snd (generate_tests_for_file example_module (replying second_response)
          (snd (generate_tests_for_file example_module (replying compliant_response)
                  example_world (lit ''examples/strings.py'') (lit ''.'')))
          (lit ''examples/strings.py'') (lit ''.''))) (lit ''/repo/test_strings.py'') =
     Some (TextFile (lit ''import pytest\<newline>def test_capitalize_first_failure(): ...\<newline>''))"
proof -
  let ?w1 = "example_world\<lparr>requests := [example_request],
      nodes := (nodes example_world)(lit ''/repo/test_strings.py'' \<mapsto>
                 TextFile (strip compliant_response @ [0x0A]))\<rparr>"
  let ?w2 = "?w1\<lparr>requests := requests ?w1 @ [example_request],
      nodes := (nodes ?w1)(lit ''/repo/test_strings.py'' \<mapsto>
                 TextFile (strip second_response @ [0x0A]))\<rparr>"
  have run1: "generate_tests_for_file example_module (replying compliant_response) example_world
     (lit ''examples/strings.py'') (lit ''.'') = (Inr (lit ''./test_strings.py''), ?w1)"
    by (rule example_success)
  have run2: "generate_tests_for_file example_module (replying second_response) ?w1
     (lit ''examples/strings.py'') (lit ''.'') = (Inr (lit ''./test_strings.py''), ?w2)"
    by (rule repo_run)
       (simp_all add: second_checks, simp_all add: example_world_def lit_def)
  have c: "strip second_response @ [0x0A] =
             lit ''import pytest\<newline>def test_capitalize_first_failure(): ...\<newline>''"
    by (simp add: second_stripped lit_def)
  have k: "resolve ?w1 (lit ''./test_strings.py'') = lit ''/repo/test_strings.py''"
    by (rule example_resolve_out) (simp add: example_world_def)
  show ?thesis
    using reinvocation_overwrites [OF run1 run2]
    by (simp add: run1 run2 c k)
qed

subsection \<open>What the checks and the file name are (C9, C10)\<close>





end
